theory Spec2Isabelle
  imports Complex_Main
begin

section \<open>Python values used by the script\<close>

text \<open>
  The script \<^verbatim>\<open>demos/8_nlp_defend/main.py\<close> corrects a sentence through a hosted chat
  completion and classifies the corrected sentence with a local three-class transformer.
  Its collaborators (the OpenAI client, the HuggingFace tokenizer and model, torch's
  softmax, float formatting) are not part of the repository: they are parameters of the
  model below, and every failure they can report is a value of \<open>py_exception\<close>.

  Strings are \<open>string\<close>; characters are the 8-bit characters of HOL, so a text is a text
  over the code points 0..255.
\<close>

datatype py_exception =
    KeyError
  | IndexError
  | ValueError
  | AttributeError
  | APIConnectionError
  | APIError
  | TokenizerError
  | ModelError

text \<open>
  \<^verbatim>\<open>str.isspace\<close> on the code points below 256: tab, line feed, vertical tab, form feed,
  carriage return, the separators 0x1C..0x1F, space, NEL (0x85) and no-break space (0xA0).
\<close>

definition isspace :: "char \<Rightarrow> bool" where
  "isspace c = ((of_char c :: nat) \<in> set [9, 10, 11, 12, 13, 28, 29, 30, 31, 32, 133, 160])"

text \<open>\<^verbatim>\<open>str.strip()\<close>: drop whitespace on the left, then on the right.\<close>

definition strip :: "string \<Rightarrow> string" where
  "strip s = rev (dropWhile isspace (rev (dropWhile isspace s)))"

text \<open>Decimal rendering of a non-negative integer, as \<^verbatim>\<open>f"{pred}"\<close> gives for a class index.\<close>

definition digit_char :: "nat \<Rightarrow> char" where
  "digit_char d = ''0123456789'' ! d"

fun str_nat :: "nat \<Rightarrow> string" where
  "str_nat n = (if n < 10 then [digit_char n] else str_nat (n div 10) @ [digit_char (n mod 10)])"

definition newline :: string where
  "newline = [CHR 0x0A]"


section \<open>Correction stage\<close>

text \<open>
  The response of \<^verbatim>\<open>openai.chat.completions.create\<close>, as far as \<^verbatim>\<open>_fix_sentence\<close> reads it:
  \<^verbatim>\<open>resp.choices\<close> (a list, possibly empty or \<^verbatim>\<open>None\<close>), \<^verbatim>\<open>choice.message\<close> (an object or
  \<^verbatim>\<open>None\<close>) and \<^verbatim>\<open>message.content\<close> (a string or \<^verbatim>\<open>None\<close>).
\<close>

record chat_message =
  content :: "string option"

record chat_choice =
  message :: "chat_message option"

record chat_completion =
  choices :: "chat_choice list option"

record chat_request =
  req_model :: string
  req_messages :: "(string \<times> string) list"
  req_temperature :: nat
  req_max_tokens :: nat

type_synonym chat_api = "chat_request \<Rightarrow> py_exception + chat_completion"

definition system_prompt :: string where
  "system_prompt = ''You are a helpful spell checker and grammar assistant. Provide the corrected sentence without any additional text.''"

definition fix_messages :: "string \<Rightarrow> (string \<times> string) list" where
  "fix_messages context =
     [(''system'', system_prompt),
      (''user'', ''This sentence has some spelling errors and grammatical errors::'' @ newline @ context)]"

definition fix_request :: "string \<Rightarrow> string \<Rightarrow> chat_request" where
  "fix_request OPENAI_MODEL context =
     \<lparr>req_model = OPENAI_MODEL, req_messages = fix_messages context,
      req_temperature = 0, req_max_tokens = 1024\<rparr>"

text \<open>
  \<^verbatim>\<open>choice = resp.choices[0] if resp.choices else None\<close>: \<^verbatim>\<open>None\<close> and the empty list are
  both falsy.
\<close>

definition first_choice :: "chat_completion \<Rightarrow> chat_choice option" where
  "first_choice resp =
     (case choices resp of
        None \<Rightarrow> None
      | Some [] \<Rightarrow> None
      | Some (c # cs) \<Rightarrow> Some c)"

text \<open>
  \<^verbatim>\<open>text = choice.message.content if choice and choice.message.content else ""\<close>:
  reading \<^verbatim>\<open>.content\<close> of a \<^verbatim>\<open>None\<close> message raises AttributeError; a \<^verbatim>\<open>None\<close> or empty
  content is falsy.
\<close>

definition reply_text :: "chat_choice option \<Rightarrow> py_exception + string" where
  "reply_text choice =
     (case choice of
        None \<Rightarrow> Inr ''''
      | Some c \<Rightarrow>
          (case message c of
             None \<Rightarrow> Inl AttributeError
           | Some m \<Rightarrow>
               (case content m of
                  None \<Rightarrow> Inr ''''
                | Some t \<Rightarrow> if t = '''' then Inr '''' else Inr t)))"

text \<open>The body of the \<^verbatim>\<open>try\<close> block of \<^verbatim>\<open>_fix_sentence\<close>.\<close>

definition fix_sentence_try :: "chat_api \<Rightarrow> string \<Rightarrow> string \<Rightarrow> py_exception + string" where
  "fix_sentence_try create OPENAI_MODEL context =
     (case create (fix_request OPENAI_MODEL context) of
        Inl e \<Rightarrow> Inl e
      | Inr resp \<Rightarrow>
          (case reply_text (first_choice resp) of
             Inl e \<Rightarrow> Inl e
           | Inr t \<Rightarrow> Inr (strip t)))"

text \<open>\<^verbatim>\<open>_fix_sentence\<close>: the \<^verbatim>\<open>except Exception\<close> handler turns every exception into \<open>''''\<close>.\<close>

definition fix_sentence :: "chat_api \<Rightarrow> string \<Rightarrow> string \<Rightarrow> string" where
  "fix_sentence create OPENAI_MODEL context =
     (case fix_sentence_try create OPENAI_MODEL context of
        Inl e \<Rightarrow> ''''
      | Inr t \<Rightarrow> t)"


section \<open>Sentiment stage\<close>

datatype device = CPU | CUDA

text \<open>
  The argument \<^verbatim>\<open>texts\<close> is documented as a list of strings, but Python accepts a bare
  string as well, and the driver passes one. Iterating a string yields its characters as
  one-character strings; iterating a list yields its elements.
\<close>

datatype texts = Str string | StrList "string list"

fun iter_texts :: "texts \<Rightarrow> string list" where
  "iter_texts (Str s) = map (\<lambda>c. [c]) s"
| "iter_texts (StrList ts) = ts"

text \<open>\<^verbatim>\<open>LABEL_MAPPING = {0: "Negative", 1: "Neutral", 2: "Positive"}\<close>\<close>

definition LABEL_MAPPING :: "(nat \<times> string) list" where
  "LABEL_MAPPING = [(0, ''Negative''), (1, ''Neutral''), (2, ''Positive'')]"

text \<open>
  \<^verbatim>\<open>LABEL_MAPPING.get(pred, f"Label-{pred}")\<close>, where \<^verbatim>\<open>pred\<close> is an index that argmax
  returned, hence a natural number.
\<close>

definition label_of :: "nat \<Rightarrow> string" where
  "label_of pred =
     (case map_of LABEL_MAPPING pred of
        Some label \<Rightarrow> label
      | None \<Rightarrow> ''Label-'' @ str_nat pred)"

text \<open>
  \<^verbatim>\<open>numpy.argmax\<close> along a row: the index of the first occurrence of the largest entry;
  ValueError on an empty row. Probabilities are real numbers here; of their arithmetic
  only the order is used.
\<close>

fun argmax_from :: "real list \<Rightarrow> nat \<Rightarrow> real \<Rightarrow> nat \<Rightarrow> nat" where
  "argmax_from [] i best best_i = best_i"
| "argmax_from (x # xs) i best best_i =
     (if best < x then argmax_from xs (Suc i) x i else argmax_from xs (Suc i) best best_i)"

definition argmax :: "real list \<Rightarrow> py_exception + nat" where
  "argmax row =
     (case row of
        [] \<Rightarrow> Inl ValueError
      | x # xs \<Rightarrow> Inr (argmax_from xs 1 x 0))"

fun argmax_axis1 :: "real list list \<Rightarrow> py_exception + nat list" where
  "argmax_axis1 [] = Inr []"
| "argmax_axis1 (row # rows) =
     (case argmax row of
        Inl e \<Rightarrow> Inl e
      | Inr k \<Rightarrow>
          (case argmax_axis1 rows of
             Inl e \<Rightarrow> Inl e
           | Inr ks \<Rightarrow> Inr (k # ks)))"

text \<open>\<^verbatim>\<open>prob_array[i]\<close>: IndexError when the row has no entry \<open>i\<close>.\<close>

definition getitem :: "real list \<Rightarrow> nat \<Rightarrow> py_exception + real" where
  "getitem a i = (if i < length a then Inr (a ! i) else Inl IndexError)"

type_synonym prob_mapping = "(string \<times> real) list"

type_synonym result = "string \<times> string \<times> prob_mapping"

text \<open>
  One pass through the body of the result loop: the label, then the dictionary with its
  keys in insertion order.
\<close>

definition make_result :: "string \<Rightarrow> nat \<Rightarrow> real list \<Rightarrow> py_exception + result" where
  "make_result text pred prob_array =
     (let label = label_of pred in
      case getitem prob_array 0 of
        Inl e \<Rightarrow> Inl e
      | Inr p0 \<Rightarrow>
          (case getitem prob_array 1 of
             Inl e \<Rightarrow> Inl e
           | Inr p1 \<Rightarrow>
               (case getitem prob_array 2 of
                  Inl e \<Rightarrow> Inl e
                | Inr p2 \<Rightarrow>
                    Inr (text, label,
                         [(''Negative'', p0), (''Neutral'', p1), (''Positive'', p2)]))))"

text \<open>
  \<^verbatim>\<open>for text, pred, prob_array in zip(texts, predictions, probs)\<close>: the loop stops with
  the shortest of the three sequences and appends one result per pass.
\<close>

fun results_loop ::
  "string list \<Rightarrow> nat list \<Rightarrow> real list list \<Rightarrow> result list \<Rightarrow> py_exception + result list" where
  "results_loop (text # ts) (pred # ps) (prob_array # rs) results =
     (case make_result text pred prob_array of
        Inl e \<Rightarrow> Inl e
      | Inr r \<Rightarrow> results_loop ts ps rs (results @ [r]))"
| "results_loop ts ps rs results = Inr results"

text \<open>
  The model object: its forward pass (from the encoded batch to one row of logits per
  input, or an exception), the device its parameters are on, and its training flag.
  \<^verbatim>\<open>model.to(device)\<close> moves the module in place; \<^verbatim>\<open>model.eval()\<close> clears the flag.
  The encoded batch \<open>'e\<close> is opaque to the script.
\<close>

record 'e classifier =
  forward :: "'e \<Rightarrow> py_exception + real list list"
  placement :: device
  training :: bool

type_synonym 'e tokenizer = "texts \<Rightarrow> py_exception + 'e"

definition model_to :: "'e classifier \<Rightarrow> device \<Rightarrow> 'e classifier" where
  "model_to model device = model\<lparr>placement := device\<rparr>"

definition model_eval :: "'e classifier \<Rightarrow> 'e classifier" where
  "model_eval model = model\<lparr>training := False\<rparr>"

text \<open>
  \<^verbatim>\<open>predict_sentiment(texts, tokenizer, model, device)\<close>. The first argument is torch's
  \<^verbatim>\<open>F.softmax(_, dim=-1)\<close>, applied to every row of the logits. Moving the encoded
  tensors to the device does not change their values and leaves no trace here. The
  function returns the model object as the call leaves it, and either the exception that
  ended the call or the list of results.
\<close>

definition predict_sentiment ::
  "(real list \<Rightarrow> real list) \<Rightarrow> texts \<Rightarrow> 'e tokenizer \<Rightarrow> 'e classifier \<Rightarrow> device
     \<Rightarrow> 'e classifier \<times> (py_exception + result list)" where
  "predict_sentiment softmax texts tokenizer model device =
     (case tokenizer texts of
        Inl e \<Rightarrow> (model, Inl e)
      | Inr inputs \<Rightarrow>
          (let model1 = model_eval (model_to model device) in
           case forward model1 inputs of
             Inl e \<Rightarrow> (model1, Inl e)
           | Inr logits \<Rightarrow>
               (let probs = map softmax logits in
                case argmax_axis1 probs of
                  Inl e \<Rightarrow> (model1, Inl e)
                | Inr predictions \<Rightarrow>
                    (model1, results_loop (iter_texts texts) predictions probs []))))"


section \<open>Start-up and driver\<close>

text \<open>
  Module level: \<^verbatim>\<open>os.environ["OPENAI_API_KEY"]\<close> raises KeyError when the variable is
  absent; \<^verbatim>\<open>os.getenv("OPENAI_MODEL", "gpt-4.1-mini")\<close> has a default.
\<close>

record settings =
  api_key :: string
  OPENAI_MODEL :: string

definition load_settings :: "(string \<rightharpoonup> string) \<Rightarrow> py_exception + settings" where
  "load_settings environ =
     (case environ ''OPENAI_API_KEY'' of
        None \<Rightarrow> Inl KeyError
      | Some key \<Rightarrow>
          Inr \<lparr>api_key = key,
               OPENAI_MODEL = (case environ ''OPENAI_MODEL'' of
                                 None \<Rightarrow> ''gpt-4.1-mini''
                               | Some m \<Rightarrow> m)\<rparr>)"

definition model_dir :: string where
  "model_dir = ''/Users/vonthd/models/twitter-roberta-base-sentiment''"

text \<open>
  Everything the script reaches outside itself: the chat completion endpoint (given the
  credential), the two \<^verbatim>\<open>from_pretrained\<close> loaders, softmax, the \<^verbatim>\<open>:.4f\<close> float format
  and \<^verbatim>\<open>torch.cuda.is_available()\<close>.
\<close>

record 'e world =
  create :: "string \<Rightarrow> chat_api"
  tokenizer_from_pretrained :: "string \<Rightarrow> py_exception + 'e tokenizer"
  model_from_pretrained :: "string \<Rightarrow> py_exception + 'e classifier"
  F_softmax :: "real list \<Rightarrow> real list"
  format_4f :: "real \<Rightarrow> string"
  cuda_is_available :: bool

text \<open>What the run does that can be observed, in order: lines printed and stages called.\<close>

datatype event =
    Print string
  | Call_fix_sentence string
  | Call_predict_sentiment texts

definition example_texts :: "string list" where
  "example_texts =
     ['''Misery' was the best movie I've seen since I was a small boy'',
      '''Misery' was the bset moive I've seen snice I was a small boy'',
      '''Misery' was the bset moive I've seen snice me were a small boy'']"

definition device_name :: "device \<Rightarrow> string" where
  "device_name d = (case d of CPU \<Rightarrow> ''cpu'' | CUDA \<Rightarrow> ''cuda'')"

definition select_device :: "bool \<Rightarrow> device" where
  "select_device cuda = (if cuda then CUDA else CPU)"

text \<open>\<^verbatim>\<open>for sentiment, probability in prob_mapping.items(): print(f"  {sentiment}: {probability:.4f}")\<close>\<close>

fun print_probs :: "(real \<Rightarrow> string) \<Rightarrow> prob_mapping \<Rightarrow> event list" where
  "print_probs fmt [] = []"
| "print_probs fmt ((sentiment, probability) # rest) =
     Print (''  '' @ sentiment @ '': '' @ fmt probability) # print_probs fmt rest"

fun print_results :: "(real \<Rightarrow> string) \<Rightarrow> result list \<Rightarrow> event list" where
  "print_results fmt [] = []"
| "print_results fmt ((text, label, prob_mapping) # rest) =
     [Print (''Text: '' @ text), Print (''Predicted Sentiment: '' @ label)]
       @ print_probs fmt prob_mapping @ [Print newline] @ print_results fmt rest"

text \<open>
  One pass through the body of the driver's loop, from the model object as the previous
  pass left it: the events of the pass, the model object after it, and the exception that
  ended the run, if any.
\<close>

definition loop_body ::
  "chat_api \<Rightarrow> string \<Rightarrow> (real list \<Rightarrow> real list) \<Rightarrow> (real \<Rightarrow> string) \<Rightarrow> 'e tokenizer \<Rightarrow> device
     \<Rightarrow> 'e classifier \<Rightarrow> string \<Rightarrow> event list \<times> 'e classifier \<times> py_exception option" where
  "loop_body api openai_model softmax fmt tokenizer device model text =
     (let fixed_text = fix_sentence api openai_model text;
          before = [Print (''Original Text: '' @ text),
                    Call_fix_sentence text,
                    Print (''Fixed Text: '' @ fixed_text),
                    Call_predict_sentiment (Str fixed_text)]
      in case predict_sentiment softmax (Str fixed_text) tokenizer model device of
           (model1, Inl e) \<Rightarrow> (before, model1, Some e)
         | (model1, Inr results) \<Rightarrow>
             (before @ [Print newline] @ print_results fmt results @ [Print newline],
              model1, None))"

fun main_loop ::
  "chat_api \<Rightarrow> string \<Rightarrow> (real list \<Rightarrow> real list) \<Rightarrow> (real \<Rightarrow> string) \<Rightarrow> 'e tokenizer \<Rightarrow> device
     \<Rightarrow> 'e classifier \<Rightarrow> string list \<Rightarrow> event list \<times> 'e classifier \<times> py_exception option" where
  "main_loop api openai_model softmax fmt tokenizer device model [] = ([], model, None)"
| "main_loop api openai_model softmax fmt tokenizer device model (text # rest) =
     (case loop_body api openai_model softmax fmt tokenizer device model text of
        (out, model1, Some e) \<Rightarrow> (out, model1, Some e)
      | (out, model1, None) \<Rightarrow>
          (case main_loop api openai_model softmax fmt tokenizer device model1 rest of
             (out_rest, model2, err) \<Rightarrow> (out @ out_rest, model2, err)))"

text \<open>The \<^verbatim>\<open>__main__\<close> block.\<close>

definition main ::
  "'e world \<Rightarrow> settings \<Rightarrow> 'e tokenizer \<Rightarrow> 'e classifier
     \<Rightarrow> event list \<times> 'e classifier \<times> py_exception option" where
  "main w cfg tokenizer model =
     (let device = select_device (cuda_is_available w) in
      case main_loop (create w (api_key cfg)) (OPENAI_MODEL cfg) (F_softmax w) (format_4f w)
             tokenizer device model example_texts of
        (out, model1, err) \<Rightarrow> (Print (''Using device: '' @ device_name device) # out, model1, err))"

text \<open>
  The whole script: the module-level statements, then \<^verbatim>\<open>__main__\<close>. An exception at
  module level ends the run before anything is printed.
\<close>

definition script :: "(string \<rightharpoonup> string) \<Rightarrow> 'e world \<Rightarrow> event list \<times> py_exception option" where
  "script environ w =
     (case load_settings environ of
        Inl e \<Rightarrow> ([], Some e)
      | Inr cfg \<Rightarrow>
          (case tokenizer_from_pretrained w model_dir of
             Inl e \<Rightarrow> ([], Some e)
           | Inr tokenizer \<Rightarrow>
               (case model_from_pretrained w model_dir of
                  Inl e \<Rightarrow> ([], Some e)
                | Inr model \<Rightarrow>
                    (case main w cfg tokenizer model of
                       (out, model1, err) \<Rightarrow> (out, err)))))"


section \<open>Notions used to state the properties\<close>

text \<open>A string without leading or trailing whitespace.\<close>

definition trimmed :: "string \<Rightarrow> bool" where
  "trimmed s = (case s of [] \<Rightarrow> True | c # cs \<Rightarrow> \<not> isspace c \<and> \<not> isspace (last s))"

text \<open>Reading a decimal numeral back, the inverse of \<open>str_nat\<close>.\<close>

definition parse_nat :: "string \<Rightarrow> nat" where
  "parse_nat s = foldl (\<lambda>a c. 10 * a + (of_char c - 48)) 0 s"

text \<open>The dictionary that the result loop builds from a row of probabilities.\<close>

definition dict_of_row :: "real list \<Rightarrow> prob_mapping" where
  "dict_of_row row = [(''Negative'', row ! 0), (''Neutral'', row ! 1), (''Positive'', row ! 2)]"


text \<open>
  Modelled from the spec: torch's \<^verbatim>\<open>F.softmax\<close> is not part of the repository. The glossary
  words softmax normalization as converting a vector of real-valued scores into a
  probability distribution by exponentiating and rescaling; over the reals, along one row
  (\<^verbatim>\<open>dim=-1\<close>):
\<close>

definition softmax_real :: "real list \<Rightarrow> real list" where
  "softmax_real xs = map (\<lambda>x. exp x / sum_list (map exp xs)) xs"






section \<open>Stand-ins for the collaborators\<close>

text \<open>
  Concrete collaborators, used to run the model: an endpoint that is unreachable, an
  endpoint that answers with a given completion, a tokenizer that batches as the
  HuggingFace tokenizer does (a bare string is one sequence, a list is one sequence per
  element), a model that scores every sequence with the same logits and is loaded on the
  CPU in evaluation mode, a normalisation in exact arithmetic in place of softmax, and a
  fixed-point rendering with four decimals.
\<close>

definition failing_api :: chat_api where
  "failing_api req = Inl APIConnectionError"

definition reply :: "string option \<Rightarrow> chat_completion" where
  "reply c = \<lparr>choices = Some [\<lparr>message = Some \<lparr>content = c\<rparr>\<rparr>]\<rparr>"

definition replying_api :: "chat_completion \<Rightarrow> chat_api" where
  "replying_api resp req = Inr resp"

definition batch_tokenizer :: "nat list list tokenizer" where
  "batch_tokenizer texts =
     (case texts of
        Str s \<Rightarrow> Inr [map of_char s]
      | StrList ts \<Rightarrow> Inr (map (map of_char) ts))"

definition constant_forward :: "real list \<Rightarrow> nat list list \<Rightarrow> py_exception + real list list" where
  "constant_forward row inputs = Inr (map (\<lambda>ids. row) inputs)"

definition loaded_model :: "real list \<Rightarrow> nat list list classifier" where
  "loaded_model row = \<lparr>forward = constant_forward row, placement = CPU, training = False\<rparr>"

definition normalise :: "real list \<Rightarrow> real list" where
  "normalise row = map (\<lambda>x. x / sum_list row) row"

definition pad4 :: "string \<Rightarrow> string" where
  "pad4 s = replicate (4 - length s) (CHR ''0'') @ s"

definition fixed4 :: "real \<Rightarrow> string" where
  "fixed4 p =
     (let n = nat \<lfloor>p * 10000 + 1 / 2\<rfloor>
      in str_nat (n div 10000) @ ''.'' @ pad4 (str_nat (n mod 10000)))"

definition demo_world :: "chat_api \<Rightarrow> bool \<Rightarrow> nat list list world" where
  "demo_world api cuda =
     \<lparr>create = (\<lambda>key. api),
      tokenizer_from_pretrained = (\<lambda>dir. Inr batch_tokenizer),
      model_from_pretrained = (\<lambda>dir. Inr (loaded_model [1, 2, 7])),
      F_softmax = normalise,
      format_4f = fixed4,
      cuda_is_available = cuda\<rparr>"


declare str_nat.simps [simp del]

lemmas demo_defs = batch_tokenizer_def constant_forward_def loaded_model_def normalise_def

lemmas stage_defs = predict_sentiment_def model_to_def model_eval_def argmax_def make_result_def
  getitem_def label_of_def LABEL_MAPPING_def


section \<open>Whitespace trimming\<close>

lemma dropWhile_unchanged: "xs = [] \<or> \<not> P (hd xs) \<Longrightarrow> dropWhile P xs = xs"
  by (cases xs) auto

lemma strip_hd:
  assumes "strip s \<noteq> []"
  shows "\<not> isspace (hd (strip s))"
proof -
  define t where "t = dropWhile isspace s"
  define u where "u = dropWhile isspace (rev t)"
  have s: "strip s = rev u" by (simp add: strip_def t_def u_def)
  with assms have u: "u \<noteq> []" by simp
  then have t: "t \<noteq> []" by (auto simp: u_def)
  have "hd (rev u) = last u" using u by (simp add: hd_rev)
  also have "\<dots> = last (rev t)"
    using u unfolding u_def by (metis dropWhile_eq_Nil_conv dropWhile_last)
  also have "\<dots> = hd t" using t by (simp add: last_rev)
  finally show ?thesis using t hd_dropWhile [of isspace s] by (simp add: s t_def)
qed

lemma strip_last:
  assumes "strip s \<noteq> []"
  shows "\<not> isspace (last (strip s))"
proof -
  define u where "u = dropWhile isspace (rev (dropWhile isspace s))"
  have s: "strip s = rev u" by (simp add: strip_def u_def)
  with assms have u: "u \<noteq> []" by simp
  then have "\<not> isspace (hd u)" unfolding u_def by (rule hd_dropWhile)
  then show ?thesis using u by (simp add: s last_rev)
qed

lemma strip_strip: "strip (strip s) = strip s"
proof -
  define u where "u = dropWhile isspace (rev (dropWhile isspace s))"
  have s: "strip s = rev u" by (simp add: strip_def u_def)
  have "dropWhile isspace (strip s) = strip s"
    using strip_hd [of s] by (intro dropWhile_unchanged) blast
  then have "strip (strip s) = rev (dropWhile isspace (rev (strip s)))"
    by (simp add: strip_def)
  also have "\<dots> = rev (dropWhile isspace u)" by (simp add: s)
  also have "\<dots> = rev u" by (simp add: u_def)
  finally show ?thesis by (simp add: s)
qed

lemma strip_Nil: "strip [] = []"
  by (simp add: strip_def)

lemma trimmed_strip: "trimmed (strip s)"
  using strip_hd [of s] strip_last [of s] by (auto simp: trimmed_def split: list.splits)

text \<open>Being trimmed and being a fixed point of trimming are the same thing.\<close>

lemma strip_fixpoint_iff: "strip s = s \<longleftrightarrow> trimmed s"
proof
  assume "strip s = s"
  then show "trimmed s" using trimmed_strip [of s] by simp
next
  assume t: "trimmed s"
  show "strip s = s"
  proof (cases s)
    case Nil
    then show ?thesis by (simp add: strip_def)
  next
    case (Cons c cs)
    with t have c: "\<not> isspace c" and l: "\<not> isspace (last s)" by (simp_all add: trimmed_def)
    have 1: "dropWhile isspace s = s" using c Cons by simp
    have "hd (rev s) = last s" using Cons by (simp add: hd_rev)
    then have 2: "dropWhile isspace (rev s) = rev s"
      using l Cons by (intro dropWhile_unchanged) simp
    show ?thesis by (simp add: strip_def 1 2)
  qed
qed


section \<open>Correction stage: results\<close>

lemma fix_sentence_cases:
  "fix_sentence api m ctx = [] \<or> (\<exists>t. fix_sentence api m ctx = strip t)"
  by (auto simp: fix_sentence_def fix_sentence_try_def split: sum.splits)

text \<open>
  C2: for every input text the correction stage returns a string (the result type has no
  absent value, and no exception leaves the handler): the empty string when the call
  raises, when the response has no choice, when the first choice has no message, and when
  the message content is absent or empty; the trimmed completion text otherwise.
\<close>

theorem fix_sentence_string:
  "(\<forall>e. fix_sentence_try api m ctx = Inl e \<longrightarrow> fix_sentence api m ctx = '''') \<and>
   (\<forall>e. api (fix_request m ctx) = Inl e \<longrightarrow> fix_sentence api m ctx = '''') \<and>
   (\<forall>resp. api (fix_request m ctx) = Inr resp \<longrightarrow>
      (choices resp = None \<or> choices resp = Some [] \<longrightarrow> fix_sentence api m ctx = '''') \<and>
      (\<forall>c cs. choices resp = Some (c # cs) \<longrightarrow>
         (message c = None \<longrightarrow> fix_sentence api m ctx = '''') \<and>
         (\<forall>msg. message c = Some msg \<longrightarrow>
            (content msg = None \<or> content msg = Some '''' \<longrightarrow> fix_sentence api m ctx = '''') \<and>
            (\<forall>t. content msg = Some t \<and> t \<noteq> '''' \<longrightarrow> fix_sentence api m ctx = strip t))))"
  by (auto simp: fix_sentence_def fix_sentence_try_def first_choice_def reply_text_def strip_Nil)

text \<open>
  The theorem at an unreachable endpoint, a response without choices, a message without
  content, and a completion with surrounding blanks.
\<close>

theorem fix_sentence_string_witness:
  "failing_api (fix_request ''gpt-4.1-mini'' ''teh cat'') = Inl APIConnectionError \<and>
   fix_sentence failing_api ''gpt-4.1-mini'' ''teh cat'' = '''' \<and>
   replying_api \<lparr>choices = Some []\<rparr> (fix_request ''gpt-4.1-mini'' ''teh cat'') = Inr \<lparr>choices = Some []\<rparr> \<and>
   fix_sentence (replying_api \<lparr>choices = Some []\<rparr>) ''gpt-4.1-mini'' ''teh cat'' = '''' \<and>
   replying_api (reply None) (fix_request ''gpt-4.1-mini'' ''teh cat'') = Inr (reply None) \<and>
   fix_sentence (replying_api (reply None)) ''gpt-4.1-mini'' ''teh cat'' = '''' \<and>
   replying_api (reply (Some '' The cat. '')) (fix_request ''gpt-4.1-mini'' ''teh cat'')
     = Inr (reply (Some '' The cat. '')) \<and>
   fix_sentence (replying_api (reply (Some '' The cat. ''))) ''gpt-4.1-mini'' ''teh cat'' = ''The cat.''"
proof -
  let ?m = "''gpt-4.1-mini''" and ?t = "''teh cat''"
  have a: "failing_api (fix_request ?m ?t) = Inl APIConnectionError"
    by (simp add: failing_api_def)
  have b: "replying_api resp (fix_request ?m ?t) = Inr resp" for resp
    by (simp add: replying_api_def)
  have "fix_sentence failing_api ?m ?t = ''''"
    using fix_sentence_string [of failing_api ?m ?t] a by blast
  moreover have "fix_sentence (replying_api \<lparr>choices = Some []\<rparr>) ?m ?t = ''''"
    using fix_sentence_string [of "replying_api \<lparr>choices = Some []\<rparr>" ?m ?t] b by simp
  moreover have "fix_sentence (replying_api (reply None)) ?m ?t = ''''"
    using fix_sentence_string [of "replying_api (reply None)" ?m ?t] b by (simp add: reply_def)
  moreover have "fix_sentence (replying_api (reply (Some '' The cat. ''))) ?m ?t = ''The cat.''"
    using fix_sentence_string [of "replying_api (reply (Some '' The cat. ''))" ?m ?t] b
    by (simp add: reply_def strip_def isspace_def)
  ultimately show ?thesis using a b by blast
qed

text \<open>
  C10: whatever the correction stage returns, on success or on failure, has no leading or
  trailing whitespace and is a fixed point of trimming.
\<close>

theorem fix_sentence_trimmed:
  "strip (fix_sentence api m ctx) = fix_sentence api m ctx \<and> trimmed (fix_sentence api m ctx)"
  using fix_sentence_cases [of api m ctx]
  by (auto simp: strip_strip strip_Nil trimmed_strip) (simp add: trimmed_def)


section \<open>Label table\<close>

lemma digit_value: "d < 10 \<Longrightarrow> of_char (digit_char d) = 48 + d"
proof -
  assume "d < 10"
  then have "d \<in> {0, 1, 2, 3, 4, 5, 6, 7, 8, 9}" by auto
  then show ?thesis by (auto simp: digit_char_def)
qed

lemma parse_nat_snoc: "parse_nat (s @ [c]) = 10 * parse_nat s + (of_char c - 48)"
  by (simp add: parse_nat_def)

text \<open>The decimal rendering determines the number.\<close>

lemma parse_str_nat: "parse_nat (str_nat n) = n"
proof (induction n rule: str_nat.induct)
  case (1 n)
  show ?case
  proof (cases "n < 10")
    case True
    then show ?thesis by (simp add: str_nat.simps [of n] parse_nat_def digit_value)
  next
    case False
    have "str_nat n = str_nat (n div 10) @ [digit_char (n mod 10)]"
      using False by (subst str_nat.simps) simp
    then show ?thesis
      using "1.IH" [OF False] by (simp add: parse_nat_snoc digit_value)
  qed
qed

lemma label_of_small:
  "label_of 0 = ''Negative''" "label_of (Suc 0) = ''Neutral''" "label_of 2 = ''Positive''"
  by (simp_all add: label_of_def LABEL_MAPPING_def)

lemma label_of_large: "2 < k \<Longrightarrow> label_of k = ''Label-'' @ str_nat k"
  by (simp add: label_of_def LABEL_MAPPING_def)

text \<open>
  C6: the label table maps 0, 1, 2 to Negative, Neutral, Positive and has no other key;
  for any other class index the lookup falls back to \<open>Label-\<close> followed by the decimal
  numeral of the index, from which the index can be read back.
\<close>

theorem label_mapping_closed:
  "label_of 0 = ''Negative'' \<and> label_of 1 = ''Neutral'' \<and> label_of 2 = ''Positive'' \<and>
   dom (map_of LABEL_MAPPING) = {0, 1, 2} \<and>
   (k \<notin> {0, 1, 2} \<longrightarrow>
      label_of k = ''Label-'' @ str_nat k \<and> parse_nat (drop 6 (label_of k)) = k)"
proof (intro conjI impI)
  show "label_of 0 = ''Negative''" "label_of 1 = ''Neutral''" "label_of 2 = ''Positive''"
    by (simp_all add: label_of_def LABEL_MAPPING_def)
  show "dom (map_of LABEL_MAPPING) = {0, 1, 2}"
    by (auto simp: LABEL_MAPPING_def split: if_splits)
  assume "k \<notin> {0, 1, 2}"
  then have k: "2 < k" by auto
  then show "label_of k = ''Label-'' @ str_nat k" by (rule label_of_large)
  then show "parse_nat (drop 6 (label_of k)) = k" by (simp add: parse_str_nat)
qed

text \<open>The theorem at class index 42.\<close>

theorem label_mapping_closed_witness:
  "(42::nat) \<notin> {0, 1, 2} \<and> label_of 42 = ''Label-42'' \<and> parse_nat (drop 6 (label_of 42)) = 42"
  using label_mapping_closed [of 42] by (simp add: str_nat.simps digit_char_def parse_nat_def)


section \<open>Sentiment stage: results\<close>

lemma argmax_from_spec:
  assumes "length pre = i" "best_i < i" "pre ! best_i = best" "\<forall>j<i. pre ! j \<le> best"
  shows "argmax_from xs i best best_i < length (pre @ xs) \<and>
         (\<forall>j < length (pre @ xs). (pre @ xs) ! j \<le> (pre @ xs) ! argmax_from xs i best best_i)"
  using assms
proof (induction xs arbitrary: pre i best best_i)
  case Nil
  then show ?case by simp
next
  case (Cons x xs)
  show ?case
  proof (cases "best < x")
    case True
    have "argmax_from xs (Suc i) x i < length ((pre @ [x]) @ xs) \<and>
         (\<forall>j < length ((pre @ [x]) @ xs).
             ((pre @ [x]) @ xs) ! j \<le> ((pre @ [x]) @ xs) ! argmax_from xs (Suc i) x i)"
    proof (rule Cons.IH)
      show "\<forall>j<Suc i. (pre @ [x]) ! j \<le> x"
        using Cons.prems True
        by (auto simp: nth_append less_Suc_eq order.strict_implies_order intro: order_trans)
    qed (use Cons.prems in \<open>auto simp: nth_append\<close>)
    with True show ?thesis by simp
  next
    case False
    have "argmax_from xs (Suc i) best best_i < length ((pre @ [x]) @ xs) \<and>
         (\<forall>j < length ((pre @ [x]) @ xs).
             ((pre @ [x]) @ xs) ! j \<le> ((pre @ [x]) @ xs) ! argmax_from xs (Suc i) best best_i)"
    proof (rule Cons.IH)
      show "\<forall>j<Suc i. (pre @ [x]) ! j \<le> best"
        using Cons.prems False by (auto simp: nth_append less_Suc_eq)
    qed (use Cons.prems in \<open>auto simp: nth_append\<close>)
    with False show ?thesis by simp
  qed
qed

text \<open>The index that \<open>argmax\<close> returns is in range and no entry of the row is larger.\<close>

lemma argmax_spec:
  assumes "argmax row = Inr k"
  shows "k < length row \<and> (\<forall>j < length row. row ! j \<le> row ! k)"
proof (cases row)
  case Nil
  with assms show ?thesis by (simp add: argmax_def)
next
  case (Cons x xs)
  with assms have k: "k = argmax_from xs 1 x 0" by (simp add: argmax_def)
  show ?thesis using argmax_from_spec [of "[x]" 1 0 x xs] by (simp add: k Cons)
qed

lemma argmax_axis1_spec:
  "argmax_axis1 rows = Inr ks \<Longrightarrow>
     length ks = length rows \<and> (\<forall>i < length rows. argmax (rows ! i) = Inr (ks ! i))"
proof (induction rows arbitrary: ks)
  case Nil
  then show ?case by simp
next
  case (Cons row rows)
  then show ?case
    by (auto simp: nth_Cons split: sum.splits nat.splits)
qed

lemma argmax_axis1_total:
  "[] \<notin> set rows \<Longrightarrow> \<exists>ks. argmax_axis1 rows = Inr ks"
  by (induction rows) (auto simp: argmax_def split: list.splits sum.splits)

lemma make_result_long:
  "3 \<le> length row \<Longrightarrow> make_result t k row = Inr (t, label_of k, dict_of_row row)"
  by (auto simp: make_result_def getitem_def dict_of_row_def)

text \<open>What the result loop returns, pass by pass.\<close>

lemma results_loop_spec:
  "results_loop ts ps rs acc = Inr out \<Longrightarrow>
     \<exists>new. out = acc @ new \<and> length new = min (length ts) (min (length ps) (length rs)) \<and>
       (\<forall>i < length new. make_result (ts ! i) (ps ! i) (rs ! i) = Inr (new ! i))"
proof (induction ts ps rs acc arbitrary: out rule: results_loop.induct)
  case (1 t ts pred ps prob_array rs results)
  from "1.prems" obtain r where r: "make_result t pred prob_array = Inr r"
    and rest: "results_loop ts ps rs (results @ [r]) = Inr out"
    by (auto split: sum.splits)
  from "1.IH" [OF r rest] obtain new where new: "out = (results @ [r]) @ new"
    "length new = min (length ts) (min (length ps) (length rs))"
    "\<forall>i < length new. make_result (ts ! i) (ps ! i) (rs ! i) = Inr (new ! i)"
    by blast
  show ?case
  proof (intro exI conjI)
    show "out = results @ (r # new)" using new(1) by simp
    show "length (r # new) = min (length (t # ts)) (min (length (pred # ps)) (length (prob_array # rs)))"
      using new(2) by simp
    show "\<forall>i<length (r # new).
            make_result ((t # ts) ! i) ((pred # ps) ! i) ((prob_array # rs) ! i) = Inr ((r # new) ! i)"
      using new(3) r by (auto simp: nth_Cons split: nat.splits)
  qed
qed auto

lemma results_loop_closed:
  "\<forall>row \<in> set rs. 3 \<le> length row \<Longrightarrow>
     results_loop ts ps rs acc =
       Inr (acc @ map (\<lambda>(t, p, row). (t, label_of p, dict_of_row row)) (zip ts (zip ps rs)))"
  by (induction ts ps rs acc rule: results_loop.induct) (auto simp: make_result_long)

lemma row_label_max:
  assumes "length row = 3" "argmax row = Inr k"
  shows "label_of k \<in> {''Negative'', ''Neutral'', ''Positive''} \<and>
         map_of (dict_of_row row) (label_of k) = Some (row ! k) \<and>
         (\<forall>l q. map_of (dict_of_row row) l = Some q \<longrightarrow> q \<le> row ! k)"
proof -
  from argmax_spec [OF assms(2)] assms(1)
  have k: "k < 3" and mx: "\<forall>j<3. row ! j \<le> row ! k" by auto
  from k have "k = 0 \<or> k = 1 \<or> k = 2" by arith
  then have "label_of k \<in> {''Negative'', ''Neutral'', ''Positive''} \<and>
         map_of (dict_of_row row) (label_of k) = Some (row ! k)"
    by (auto simp: label_of_small dict_of_row_def)
  moreover have "\<forall>l q. map_of (dict_of_row row) l = Some q \<longrightarrow> q \<le> row ! k"
    using mx by (auto simp: dict_of_row_def split: if_splits)
  ultimately show ?thesis by blast
qed

lemma forward_after [simp]: "forward (model_eval (model_to model device)) = forward model"
  by (simp add: model_eval_def model_to_def)

text \<open>
  C3: with a three-class model (every row of probabilities has three entries), in every
  result that the sentiment stage returns the predicted label is one of the three names,
  the dictionary has exactly the three names as keys, and no entry of the dictionary is
  larger than the entry of the predicted label.
\<close>

theorem predicted_label_is_argmax:
  assumes "tokenizer texts = Inr inputs"
    and "forward model inputs = Inr logits"
    and "list_all (\<lambda>row. length (softmax row) = 3) logits"
    and "snd (predict_sentiment softmax texts tokenizer model device) = Inr results"
    and "(t, label, pm) \<in> set results"
  shows "label \<in> {''Negative'', ''Neutral'', ''Positive''} \<and>
         map fst pm = [''Negative'', ''Neutral'', ''Positive''] \<and>
         (\<exists>p. map_of pm label = Some p \<and> (\<forall>l q. map_of pm l = Some q \<longrightarrow> q \<le> p))"
proof -
  define probs where "probs = map softmax logits"
  from assms(1,2,4) obtain predictions where
    preds: "argmax_axis1 probs = Inr predictions" and
    loop: "results_loop (iter_texts texts) predictions probs [] = Inr results"
    by (auto simp: predict_sentiment_def probs_def Let_def split: sum.splits)
  from results_loop_spec [OF loop] have
    len: "length results = min (length (iter_texts texts)) (min (length predictions) (length probs))" and
    each: "\<forall>i < length results.
             make_result (iter_texts texts ! i) (predictions ! i) (probs ! i) = Inr (results ! i)"
    by auto
  from assms(5) obtain i where i: "i < length results" "results ! i = (t, label, pm)"
    by (auto simp: in_set_conv_nth)
  have ip: "i < length probs" using i(1) len by simp
  then have three: "length (probs ! i) = 3"
    using assms(3) by (simp add: probs_def list_all_length)
  have am: "argmax (probs ! i) = Inr (predictions ! i)"
    using argmax_axis1_spec [OF preds] ip by simp
  have "make_result (iter_texts texts ! i) (predictions ! i) (probs ! i) = Inr (t, label, pm)"
    using each i by simp
  then have eq: "label = label_of (predictions ! i)" "pm = dict_of_row (probs ! i)"
    using three by (simp_all add: make_result_long)
  have keys: "map fst pm = [''Negative'', ''Neutral'', ''Positive'']"
    by (simp add: eq dict_of_row_def)
  show ?thesis
    using row_label_max [OF three am] keys unfolding eq by blast
qed

text \<open>The theorem on a list of one text, with logits 1, 2, 7.\<close>

theorem predicted_label_is_argmax_witness:
  "batch_tokenizer (StrList [''good'']) = Inr [map of_char ''good''] \<and>
   forward (loaded_model [1, 2, 7]) [map of_char ''good''] = Inr [[1, 2, 7]] \<and>
   list_all (\<lambda>row. length (normalise row) = 3) [[1, 2, 7]] \<and>
   snd (predict_sentiment normalise (StrList [''good'']) batch_tokenizer (loaded_model [1, 2, 7]) CPU)
     = Inr [(''good'', ''Positive'', [(''Negative'', 1 / 10), (''Neutral'', 1 / 5), (''Positive'', 7 / 10)])] \<and>
   (''good'', ''Positive'', [(''Negative'', 1 / 10), (''Neutral'', 1 / 5), (''Positive'', 7 / 10)])
     \<in> set [(''good'', ''Positive'', [(''Negative'', 1 / 10), (''Neutral'', 1 / 5), (''Positive'', 7 / 10)]) :: result] \<and>
   (\<exists>p. map_of [(''Negative'', 1 / 10), (''Neutral'', 1 / 5), (''Positive'', 7 / 10 :: real)] ''Positive'' = Some p \<and>
        (\<forall>l q. map_of [(''Negative'', 1 / 10), (''Neutral'', 1 / 5), (''Positive'', 7 / 10 :: real)] l = Some q
                 \<longrightarrow> q \<le> p))"
proof -
  let ?pm = "[(''Negative'', 1 / 10), (''Neutral'', 1 / 5), (''Positive'', 7 / 10 :: real)]"
  have tok: "batch_tokenizer (StrList [''good'']) = Inr [map of_char ''good'']"
    by (simp add: batch_tokenizer_def)
  have fwd: "forward (loaded_model [1, 2, 7]) [map of_char ''good''] = Inr [[1, 2, 7]]"
    by (simp add: loaded_model_def constant_forward_def)
  have three: "list_all (\<lambda>row. length (normalise row) = 3) [[1, 2, 7]]"
    by (simp add: normalise_def)
  have run: "snd (predict_sentiment normalise (StrList [''good'']) batch_tokenizer (loaded_model [1, 2, 7]) CPU)
     = Inr [(''good'', ''Positive'', ?pm)]"
    by (simp add: demo_defs stage_defs)
  have mem: "(''good'', ''Positive'', ?pm) \<in> set [(''good'', ''Positive'', ?pm)]"
    by simp
  from predicted_label_is_argmax [where tokenizer = batch_tokenizer and softmax = normalise
      and device = CPU, OF tok fwd three run mem]
  show ?thesis using tok fwd three run mem by blast
qed

lemma sum_list_exp_nonneg: "0 \<le> sum_list (map exp (xs :: real list))"
  by (induction xs) (auto intro: add_nonneg_nonneg)

lemma sum_list_exp_pos: "xs \<noteq> [] \<Longrightarrow> 0 < sum_list (map exp (xs :: real list))"
  using sum_list_exp_nonneg by (cases xs) (auto intro: add_pos_nonneg)

lemma sum_list_divide: "sum_list (map (\<lambda>x. f x / c) xs) = sum_list (map f xs) / (c::real)"
  by (induction xs) (simp_all add: add_divide_distrib)

lemma softmax_real_length: "length (softmax_real xs) = length xs"
  by (simp add: softmax_real_def)

lemma softmax_real_nonneg: "list_all (\<lambda>p. 0 \<le> p) (softmax_real xs)"
proof -
  have "0 \<le> sum_list (map exp xs)" by (rule sum_list_exp_nonneg)
  then show ?thesis by (simp add: softmax_real_def list_all_iff)
qed

lemma softmax_real_sum: "xs \<noteq> [] \<Longrightarrow> sum_list (softmax_real xs) = 1"
  using sum_list_exp_pos [of xs] by (simp add: softmax_real_def sum_list_divide)

lemma make_result_Inr:
  "make_result t k row = Inr r \<Longrightarrow> 3 \<le> length row \<and> r = (t, label_of k, dict_of_row row)"
  by (auto simp: make_result_def getitem_def dict_of_row_def split: if_splits)

lemma dict_values: "length row = 3 \<Longrightarrow> map snd (dict_of_row row) = row"
  by (auto simp: dict_of_row_def list_eq_iff_nth_eq less_Suc_eq numeral_3_eq_3 numeral_2_eq_2)

text \<open>
  Every result comes from one row of the logits: its dictionary is built from the softmax
  of that row, its label from the argmax of it, its text from the same position of the
  texts.
\<close>

lemma result_row:
  assumes "tokenizer texts = Inr inputs"
    and "forward model inputs = Inr logits"
    and "snd (predict_sentiment softmax texts tokenizer model device) = Inr results"
    and "(t, label, pm) \<in> set results"
  shows "\<exists>i k. i < length logits \<and> i < length (iter_texts texts) \<and> t = iter_texts texts ! i \<and>
           argmax (softmax (logits ! i)) = Inr k \<and>
           3 \<le> length (softmax (logits ! i)) \<and> label = label_of k \<and>
           pm = dict_of_row (softmax (logits ! i))"
proof -
  define probs where "probs = map softmax logits"
  from assms(1,2,3) obtain predictions where
    preds: "argmax_axis1 probs = Inr predictions" and
    loop: "results_loop (iter_texts texts) predictions probs [] = Inr results"
    by (auto simp: predict_sentiment_def probs_def Let_def split: sum.splits)
  from results_loop_spec [OF loop] have
    len: "length results = min (length (iter_texts texts)) (min (length predictions) (length probs))" and
    each: "\<forall>i < length results.
             make_result (iter_texts texts ! i) (predictions ! i) (probs ! i) = Inr (results ! i)"
    by auto
  from assms(4) obtain i where i: "i < length results" "results ! i = (t, label, pm)"
    by (auto simp: in_set_conv_nth)
  have il: "i < length logits" and it: "i < length (iter_texts texts)"
    using i(1) len by (simp_all add: probs_def)
  have row: "probs ! i = softmax (logits ! i)" using il by (simp add: probs_def)
  have am: "argmax (softmax (logits ! i)) = Inr (predictions ! i)"
    using argmax_axis1_spec [OF preds] il row by (simp add: probs_def)
  from each i(1) have "make_result (iter_texts texts ! i) (predictions ! i) (probs ! i) = Inr (results ! i)"
    by blast
  then have "make_result (iter_texts texts ! i) (predictions ! i) (softmax (logits ! i)) = Inr (t, label, pm)"
    unfolding row i(2) .
  from make_result_Inr [OF this] show ?thesis using il it am by blast
qed

text \<open>
  Whatever softmax is: if on every row of the logits it returns three entries that are
  not negative and sum to 1 within a tolerance, so do the values of every dictionary that
  the sentiment stage returns.
\<close>

lemma dictionary_keeps_distribution:
  assumes "tokenizer texts = Inr inputs"
    and "forward model inputs = Inr logits"
    and "list_all (\<lambda>row. length (softmax row) = 3 \<and> list_all (\<lambda>p. 0 \<le> p) (softmax row) \<and>
                         \<bar>sum_list (softmax row) - 1\<bar> \<le> tol) logits"
    and "snd (predict_sentiment softmax texts tokenizer model device) = Inr results"
    and "(t, label, pm) \<in> set results"
  shows "map fst pm = [''Negative'', ''Neutral'', ''Positive''] \<and>
         list_all (\<lambda>p. 0 \<le> p) (map snd pm) \<and> \<bar>sum_list (map snd pm) - 1\<bar> \<le> tol"
proof -
  from result_row [OF assms(1,2,4,5)] obtain i where
    i: "i < length logits" and pm: "pm = dict_of_row (softmax (logits ! i))"
    by blast
  from assms(3) i have c: "length (softmax (logits ! i)) = 3"
    "list_all (\<lambda>p. 0 \<le> p) (softmax (logits ! i))" "\<bar>sum_list (softmax (logits ! i)) - 1\<bar> \<le> tol"
    by (simp_all add: list_all_length)
  have "map snd pm = softmax (logits ! i)" using c(1) by (simp add: pm dict_values)
  moreover have "map fst pm = [''Negative'', ''Neutral'', ''Positive'']"
    by (simp add: pm dict_of_row_def)
  ultimately show ?thesis using c by simp
qed

text \<open>
  C4: with softmax as exponentiating and rescaling along each row of the logits of a
  three-class model, in every result that the sentiment stage returns the dictionary has
  the three names as keys, its three values are not negative, and they sum to 1 (so also
  within a tolerance of 1/10000).
\<close>

theorem probabilities_form_distribution:
  assumes "tokenizer texts = Inr inputs"
    and "forward model inputs = Inr logits"
    and "list_all (\<lambda>row. length row = 3) logits"
    and "snd (predict_sentiment softmax_real texts tokenizer model device) = Inr results"
    and "(t, label, pm) \<in> set results"
  shows "map fst pm = [''Negative'', ''Neutral'', ''Positive''] \<and>
         list_all (\<lambda>p. 0 \<le> p) (map snd pm) \<and>
         sum_list (map snd pm) = 1 \<and>
         \<bar>sum_list (map snd pm) - 1\<bar> \<le> 1 / 10000"
proof -
  have "length (softmax_real row) = 3 \<and> list_all (\<lambda>p. 0 \<le> p) (softmax_real row) \<and>
          \<bar>sum_list (softmax_real row) - 1\<bar> \<le> 0" if "row \<in> set logits" for row
  proof -
    from that assms(3) have l: "length row = 3" by (simp add: list_all_iff)
    then have "row \<noteq> []" by auto
    then show ?thesis
      using l by (simp add: softmax_real_length softmax_real_nonneg softmax_real_sum)
  qed
  then have "list_all (\<lambda>row. length (softmax_real row) = 3 \<and> list_all (\<lambda>p. 0 \<le> p) (softmax_real row) \<and>
                         \<bar>sum_list (softmax_real row) - 1\<bar> \<le> 0) logits"
    unfolding list_all_iff [of _ logits] by blast
  from dictionary_keeps_distribution [where softmax = softmax_real and tokenizer = tokenizer,
      OF assms(1,2) this assms(4,5)]
  show ?thesis by simp
qed

lemma softmax_real_zero: "softmax_real [0, 0, 0] = [1 / 3, 1 / 3, 1 / 3]"
  by (simp add: softmax_real_def)

text \<open>The theorem on a list of one text, with logits 0, 0, 0.\<close>

theorem probabilities_form_distribution_witness:
  "batch_tokenizer (StrList [''good'']) = Inr [map of_char ''good''] \<and>
   forward (loaded_model [0, 0, 0]) [map of_char ''good''] = Inr [[0, 0, 0]] \<and>
   list_all (\<lambda>row. length row = 3) [[0, 0, 0 :: real]] \<and>
   snd (predict_sentiment softmax_real (StrList [''good'']) batch_tokenizer (loaded_model [0, 0, 0]) CPU)
     = Inr [(''good'', ''Negative'', [(''Negative'', 1 / 3), (''Neutral'', 1 / 3), (''Positive'', 1 / 3)])] \<and>
   (''good'', ''Negative'', [(''Negative'', 1 / 3), (''Neutral'', 1 / 3), (''Positive'', 1 / 3)])
     \<in> set [(''good'', ''Negative'', [(''Negative'', 1 / 3), (''Neutral'', 1 / 3), (''Positive'', 1 / 3)]) :: result] \<and>
   list_all (\<lambda>p. 0 \<le> p) (map snd [(''Negative'', 1 / 3), (''Neutral'', 1 / 3), (''Positive'', 1 / 3 :: real)]) \<and>
   sum_list (map snd [(''Negative'', 1 / 3), (''Neutral'', 1 / 3), (''Positive'', 1 / 3 :: real)]) = 1"
proof -
  let ?pm = "[(''Negative'', 1 / 3), (''Neutral'', 1 / 3), (''Positive'', 1 / 3 :: real)]"
  have tok: "batch_tokenizer (StrList [''good'']) = Inr [map of_char ''good'']"
    by (simp add: batch_tokenizer_def)
  have fwd: "forward (loaded_model [0, 0, 0]) [map of_char ''good''] = Inr [[0, 0, 0]]"
    by (simp add: loaded_model_def constant_forward_def)
  have three: "list_all (\<lambda>row. length row = 3) [[0, 0, 0 :: real]]"
    by simp
  have run: "snd (predict_sentiment softmax_real (StrList [''good'']) batch_tokenizer (loaded_model [0, 0, 0]) CPU)
     = Inr [(''good'', ''Negative'', ?pm)]"
    by (simp add: batch_tokenizer_def constant_forward_def loaded_model_def stage_defs softmax_real_zero)
  have mem: "(''good'', ''Negative'', ?pm) \<in> set [(''good'', ''Negative'', ?pm)]"
    by simp
  from probabilities_form_distribution [where tokenizer = batch_tokenizer and device = CPU,
      OF tok fwd three run mem]
  show ?thesis using tok fwd three run mem by blast
qed

text \<open>
  The documented use: on a list of texts, with one row of three probabilities per text,
  the stage returns one result per text, and the first components are the texts.
\<close>

lemma predict_sentiment_list:
  assumes "tokenizer (StrList ts) = Inr inputs"
    and "forward model inputs = Inr logits"
    and "length logits = length ts"
    and "\<forall>row \<in> set logits. length (softmax row) = 3"
  shows "\<exists>results. snd (predict_sentiment softmax (StrList ts) tokenizer model device) = Inr results \<and>
           map fst results = ts"
proof -
  define probs where "probs = map softmax logits"
  have "[] \<notin> set probs" using assms(4) by (auto simp: probs_def)
  from argmax_axis1_total [OF this] obtain ks where ks: "argmax_axis1 probs = Inr ks" by blast
  have lk: "length ks = length ts" using argmax_axis1_spec [OF ks] assms(3) by (simp add: probs_def)
  have lp: "length probs = length ts" using assms(3) by (simp add: probs_def)
  have three: "\<forall>row \<in> set probs. 3 \<le> length row" using assms(4) by (auto simp: probs_def)
  have "snd (predict_sentiment softmax (StrList ts) tokenizer model device)
          = Inr (map (\<lambda>(t, p, row). (t, label_of p, dict_of_row row)) (zip ts (zip ks probs)))"
    using assms(1,2) ks results_loop_closed [OF three, of ts ks "[]"]
    by (simp add: predict_sentiment_def probs_def)
  moreover have "map fst (map (\<lambda>(t, p, row). (t, label_of p, dict_of_row row)) (zip ts (zip ks probs))) = ts"
  proof -
    have "map fst (map (\<lambda>(t, p, row). (t, label_of p, dict_of_row row)) (zip ts (zip ks probs)))
            = map fst (zip ts (zip ks probs))"
      by (simp add: case_prod_unfold comp_def)
    also have "\<dots> = ts" using lk lp by (simp add: map_fst_zip)
    finally show ?thesis .
  qed
  ultimately show ?thesis by blast
qed

text \<open>
  The driver's use: on a bare non-empty string, encoded as a batch of one, the stage
  returns a single result whose first component is the first character of the string.
\<close>

lemma predict_sentiment_bare_string:
  assumes "tokenizer (Str (c # cs)) = Inr inputs"
    and "forward model inputs = Inr [row]"
    and "length (softmax row) = 3"
  shows "\<exists>k. argmax (softmax row) = Inr k \<and>
           snd (predict_sentiment softmax (Str (c # cs)) tokenizer model device)
             = Inr [([c], label_of k, dict_of_row (softmax row))]"
proof -
  from assms(3) obtain x xs where "softmax row = x # xs" by (cases "softmax row") auto
  then have am: "argmax (softmax row) = Inr (argmax_from xs 1 x 0)" by (simp add: argmax_def)
  show ?thesis
    using assms am by (cases cs) (simp_all add: predict_sentiment_def make_result_long)
qed

lemma predict_sentiment_empty_string:
  assumes "tokenizer (Str '''') = Inr inputs"
    and "forward model inputs = Inr logits"
    and "[] \<notin> set (map softmax logits)"
  shows "predict_sentiment softmax (Str '''') tokenizer model device
           = (model_eval (model_to model device), Inr [])"
proof -
  from argmax_axis1_total [OF assms(3)] obtain ks where "argmax_axis1 (map softmax logits) = Inr ks"
    by blast
  then show ?thesis using assms(1,2) by (simp add: predict_sentiment_def)
qed

text \<open>
  C1: the stage called as the driver calls it, on the first example sentence as a bare
  string, returns one result whose first component is the sentence's first character
  (the apostrophe), not the sentence.
\<close>

theorem driver_call_returns_first_character:
  "snd (predict_sentiment normalise (Str '''Misery' was the best movie I've seen since I was a small boy'')
          batch_tokenizer (loaded_model [1, 2, 7]) CPU)
     = Inr [([CHR 0x27], ''Positive'', [(''Negative'', 1 / 10), (''Neutral'', 1 / 5), (''Positive'', 7 / 10)])]"
  by (simp add: demo_defs stage_defs)

text \<open>
  C5: when the completion call raises, the correction stage returns the empty string;
  if the tokenizer and the model accept the empty string and the model has at least one
  class, the sentiment stage called on that empty string returns (the empty list of
  results), and the driver's pass ends without an exception.
\<close>

theorem failed_correction_then_sentiment:
  assumes "api (fix_request m ctx) = Inl e"
    and "tokenizer (Str '''') = Inr inputs"
    and "forward model inputs = Inr logits"
    and "[] \<notin> set (map softmax logits)"
  shows "fix_sentence api m ctx = '''' \<and>
         snd (predict_sentiment softmax (Str (fix_sentence api m ctx)) tokenizer model device) = Inr [] \<and>
         snd (snd (loop_body api m softmax fmt tokenizer device model ctx)) = None"
proof -
  have f: "fix_sentence api m ctx = ''''"
    using assms(1) by (simp add: fix_sentence_def fix_sentence_try_def)
  show ?thesis
    using predict_sentiment_empty_string [of tokenizer inputs model logits softmax device] assms(2,3,4)
    by (simp add: f loop_body_def)
qed

text \<open>The theorem at an unreachable endpoint.\<close>

theorem failed_correction_then_sentiment_witness:
  "failing_api (fix_request ''gpt-4.1-mini'' ''teh cat'') = Inl APIConnectionError \<and>
   batch_tokenizer (Str '''') = Inr [[]] \<and>
   forward (loaded_model [1, 2, 7]) [[]] = Inr [[1, 2, 7]] \<and>
   [] \<notin> set (map normalise [[1, 2, 7]]) \<and>
   fix_sentence failing_api ''gpt-4.1-mini'' ''teh cat'' = '''' \<and>
   snd (predict_sentiment normalise (Str (fix_sentence failing_api ''gpt-4.1-mini'' ''teh cat''))
          batch_tokenizer (loaded_model [1, 2, 7]) CPU) = Inr [] \<and>
   snd (snd (loop_body failing_api ''gpt-4.1-mini'' normalise fixed4 batch_tokenizer CPU
               (loaded_model [1, 2, 7]) ''teh cat'')) = None"
proof -
  have a: "failing_api (fix_request ''gpt-4.1-mini'' ''teh cat'') = Inl APIConnectionError"
    by (simp add: failing_api_def)
  have tok: "batch_tokenizer (Str '''') = Inr [[]]"
    by (simp add: batch_tokenizer_def)
  have fwd: "forward (loaded_model [1, 2, 7]) [[]] = Inr [[1, 2, 7]]"
    by (simp add: loaded_model_def constant_forward_def)
  have nonempty: "[] \<notin> set (map normalise [[1, 2, 7]])"
    by (simp add: normalise_def)
  from failed_correction_then_sentiment [where api = failing_api and tokenizer = batch_tokenizer
      and softmax = normalise and device = CPU and fmt = fixed4, OF a tok fwd nonempty]
  show ?thesis using a tok fwd nonempty by blast
qed


section \<open>The model object across invocations\<close>

lemma predict_sentiment_model:
  "fst (predict_sentiment softmax texts tokenizer model device) =
     (case tokenizer texts of
        Inl e \<Rightarrow> model
      | Inr inputs \<Rightarrow> model\<lparr>placement := device, training := False\<rparr>)"
  by (simp add: predict_sentiment_def model_to_def model_eval_def Let_def split: sum.splits)


















section \<open>Start-up\<close>

text \<open>
  C8: without the credential variable the module-level lookup raises KeyError and the
  script ends with that exception before any event; with it, the settings hold the
  credential and the model identifier from the optional variable, or
  \<open>gpt-4.1-mini\<close> when that variable is absent, and once both loaders have returned the
  run reaches the driver, whose first event is the device line.
\<close>

theorem credential_required:
  "(environ ''OPENAI_API_KEY'' = None \<longrightarrow>
      load_settings environ = Inl KeyError \<and> script environ w = ([], Some KeyError)) \<and>
   (\<forall>key. environ ''OPENAI_API_KEY'' = Some key \<longrightarrow>
      load_settings environ =
        Inr \<lparr>api_key = key,
             OPENAI_MODEL = (case environ ''OPENAI_MODEL'' of None \<Rightarrow> ''gpt-4.1-mini'' | Some m \<Rightarrow> m)\<rparr> \<and>
      (\<forall>tok mdl. tokenizer_from_pretrained w model_dir = Inr tok \<and>
                 model_from_pretrained w model_dir = Inr mdl \<longrightarrow>
         (\<exists>out err. script environ w =
            (Print (''Using device: '' @ device_name (select_device (cuda_is_available w))) # out, err))))"
  by (auto simp: load_settings_def script_def main_def Let_def split: prod.splits option.splits)

text \<open>
  The theorem on an empty environment, on one with the credential only, and on one that
  also names the model.
\<close>

theorem credential_required_witness:
  "Map.empty ''OPENAI_API_KEY'' = (None :: string option) \<and>
   script Map.empty (demo_world failing_api False) = ([], Some KeyError) \<and>
   [''OPENAI_API_KEY'' \<mapsto> ''sk-test''] ''OPENAI_API_KEY'' = Some ''sk-test'' \<and>
   load_settings [''OPENAI_API_KEY'' \<mapsto> ''sk-test'']
     = Inr \<lparr>api_key = ''sk-test'', OPENAI_MODEL = ''gpt-4.1-mini''\<rparr> \<and>
   [''OPENAI_API_KEY'' \<mapsto> ''sk-test'', ''OPENAI_MODEL'' \<mapsto> ''gpt-4o''] ''OPENAI_API_KEY'' = Some ''sk-test'' \<and>
   load_settings [''OPENAI_API_KEY'' \<mapsto> ''sk-test'', ''OPENAI_MODEL'' \<mapsto> ''gpt-4o'']
     = Inr \<lparr>api_key = ''sk-test'', OPENAI_MODEL = ''gpt-4o''\<rparr>"
  using credential_required [of Map.empty "demo_world failing_api False"]
    credential_required [of "[''OPENAI_API_KEY'' \<mapsto> ''sk-test'']" "demo_world failing_api False"]
    credential_required [of "[''OPENAI_API_KEY'' \<mapsto> ''sk-test'', ''OPENAI_MODEL'' \<mapsto> ''gpt-4o'']"
      "demo_world failing_api False"]
  by simp


section \<open>Driver\<close>

text \<open>
  A pass of the driver's loop whose corrected text is not empty: the original text, the
  correction, the corrected text, the classification, then one block with the first
  character of the corrected text, the label and the three probabilities.
\<close>

lemma loop_body_reply:
  assumes "fix_sentence api m t = c # cs"
    and "tokenizer (Str (c # cs)) = Inr inputs"
    and "forward model inputs = Inr [row]"
    and "length (softmax row) = 3"
  shows "\<exists>k. argmax (softmax row) = Inr k \<and>
     loop_body api m softmax fmt tokenizer device model t =
       ([Print (''Original Text: '' @ t),
         Call_fix_sentence t,
         Print (''Fixed Text: '' @ c # cs),
         Call_predict_sentiment (Str (c # cs)),
         Print newline,
         Print (''Text: '' @ [c]),
         Print (''Predicted Sentiment: '' @ label_of k),
         Print (''  Negative: '' @ fmt (softmax row ! 0)),
         Print (''  Neutral: '' @ fmt (softmax row ! 1)),
         Print (''  Positive: '' @ fmt (softmax row ! 2)),
         Print newline,
         Print newline],
        model\<lparr>placement := device, training := False\<rparr>, None)"
proof -
  from predict_sentiment_bare_string [where tokenizer = tokenizer and softmax = softmax
      and device = device, OF assms(2,3,4)] obtain k where
    k: "argmax (softmax row) = Inr k" and
    r: "snd (predict_sentiment softmax (Str (c # cs)) tokenizer model device)
             = Inr [([c], label_of k, dict_of_row (softmax row))]"
    by blast
  have "predict_sentiment softmax (Str (c # cs)) tokenizer model device
          = (model\<lparr>placement := device, training := False\<rparr>,
             Inr [([c], label_of k, dict_of_row (softmax row))])"
    using r predict_sentiment_model [of softmax "Str (c # cs)" tokenizer model device] assms(2)
    by (cases "predict_sentiment softmax (Str (c # cs)) tokenizer model device") simp
  then show ?thesis using k assms(1) by (simp add: loop_body_def dict_of_row_def Let_def)
qed

text \<open>A pass whose corrected text is empty: no block follows the classification.\<close>

lemma loop_body_failed:
  assumes "fix_sentence api m t = ''''"
    and "tokenizer (Str '''') = Inr inputs"
    and "forward model inputs = Inr logits"
    and "[] \<notin> set (map softmax logits)"
  shows "loop_body api m softmax fmt tokenizer device model t =
       ([Print (''Original Text: '' @ t),
         Call_fix_sentence t,
         Print ''Fixed Text: '',
         Call_predict_sentiment (Str ''''),
         Print newline,
         Print newline],
        model\<lparr>placement := device, training := False\<rparr>, None)"
  using predict_sentiment_empty_string [of tokenizer inputs model logits softmax device] assms
  by (simp add: loop_body_def model_to_def model_eval_def Let_def)

text \<open>
  The second example sentence, corrected by the endpoint to the first one, on a model
  that favours the third class.
\<close>

lemma corrected_pass_example:
  "loop_body (replying_api (reply (Some '''Misery' was the best movie I've seen since I was a small boy'')))
     ''gpt-4.1-mini'' normalise fixed4 batch_tokenizer CPU (loaded_model [1, 2, 7])
     '''Misery' was the bset moive I've seen snice I was a small boy'' =
     ([Print ''Original Text: 'Misery' was the bset moive I've seen snice I was a small boy'',
       Call_fix_sentence '''Misery' was the bset moive I've seen snice I was a small boy'',
       Print ''Fixed Text: 'Misery' was the best movie I've seen since I was a small boy'',
       Call_predict_sentiment (Str '''Misery' was the best movie I've seen since I was a small boy''),
       Print newline,
       Print (''Text: '' @ [CHR 0x27]),
       Print ''Predicted Sentiment: Positive'',
       Print ''  Negative: 0.1000'',
       Print ''  Neutral: 0.2000'',
       Print ''  Positive: 0.7000'',
       Print newline,
       Print newline],
      loaded_model [1, 2, 7], None)"
  by (simp add: loop_body_def fix_sentence_def fix_sentence_try_def replying_api_def reply_def
        first_choice_def reply_text_def strip_def isspace_def demo_defs stage_defs fixed4_def
        pad4_def str_nat.simps digit_char_def Let_def)

text \<open>
  C9: a whole run against an unreachable endpoint. For each of the three sentences the
  driver prints the original text, calls the correction stage, prints the empty
  correction and calls the sentiment stage on it; no label and no probability is printed.
\<close>

theorem failed_correction_prints_no_sentiment:
  "script [''OPENAI_API_KEY'' \<mapsto> ''sk-test''] (demo_world failing_api False) =
     ([Print ''Using device: cpu'',
       Print ''Original Text: 'Misery' was the best movie I've seen since I was a small boy'',
       Call_fix_sentence '''Misery' was the best movie I've seen since I was a small boy'',
       Print ''Fixed Text: '',
       Call_predict_sentiment (Str ''''),
       Print newline,
       Print newline,
       Print ''Original Text: 'Misery' was the bset moive I've seen snice I was a small boy'',
       Call_fix_sentence '''Misery' was the bset moive I've seen snice I was a small boy'',
       Print ''Fixed Text: '',
       Call_predict_sentiment (Str ''''),
       Print newline,
       Print newline,
       Print ''Original Text: 'Misery' was the bset moive I've seen snice me were a small boy'',
       Call_fix_sentence '''Misery' was the bset moive I've seen snice me were a small boy'',
       Print ''Fixed Text: '',
       Call_predict_sentiment (Str ''''),
       Print newline,
       Print newline],
      None)"
proof -
  have failed: "fix_sentence failing_api m t = ''''" for m t
    by (simp add: fix_sentence_def fix_sentence_try_def failing_api_def)
  have tok: "batch_tokenizer (Str '''') = Inr [[]]"
    by (simp add: batch_tokenizer_def)
  have fwd: "forward model [[]] = Inr [[1, 2, 7]]"
    if "forward model = constant_forward [1, 2, 7]" for model :: "nat list list classifier"
    using that by (simp add: constant_forward_def)
  have nonempty: "[] \<notin> set (map normalise [[1, 2, 7]])"
    by (simp add: normalise_def)
  have body: "loop_body failing_api m normalise fixed4 batch_tokenizer CPU model t =
       ([Print (''Original Text: '' @ t), Call_fix_sentence t, Print ''Fixed Text: '',
         Call_predict_sentiment (Str ''''), Print newline, Print newline],
        model\<lparr>placement := CPU, training := False\<rparr>, None)"
    if "forward model = constant_forward [1, 2, 7]" for m t and model :: "nat list list classifier"
    using loop_body_failed [where api = failing_api and tokenizer = batch_tokenizer
        and softmax = normalise and model = model and inputs = "[[]]" and logits = "[[1, 2, 7]]"]
      failed tok fwd [OF that] nonempty by blast
  show ?thesis
    by (simp add: script_def load_settings_def demo_world_def main_def select_device_def device_name_def
          example_texts_def body loaded_model_def)
qed

end
